theory Spec2Isabelle
  imports Complex_Main
begin

section \<open>The live object-detection component (src/components/object-detection.tsx)\<close>

text \<open>
  The component keeps nine \<open>useState\<close> cells, a canvas behind \<open>canvasRef\<close> and the
  browser's timers. Every function of the component is a closure created by one render:
  a state variable read inside it (\<open>consecutiveErrors\<close>, \<open>lastFrameTime\<close>,
  \<open>isDetecting\<close>, \<open>loadingTimeout\<close>) is a \<open>const\<close> of that render, while a setter
  writes the live cell. The embedding therefore gives every function two states: \<open>snap\<close>,
  the values of the render that created the closure (what reads see), and the page
  \<open>w\<close>, whose cells the setters update. The two \<open>useEffect\<close> hooks, which decide
  which render's closure is started and when, are not functions of the embedding: the
  render is a parameter of every function, and the concrete pages below say where a hook
  has acted. A JavaScript number is the rational value of an IEEE 754 double; every
  arithmetic operation of the source rounds its exact result to the nearest double.
\<close>

subsection \<open>Data\<close>

record prediction =
  bbox :: "rat \<times> rat \<times> rat \<times> rat"
  class_name :: string
  score :: rat

datatype jsnum = Finite int | Infinity

record state =
  isModelLoading :: bool
  error :: "string option"
  isDetecting :: bool
  backendStatus :: string
  consecutiveErrors :: nat
  loadingTimeout :: "nat option"
  detectionCount :: "string \<rightharpoonup> nat"
  fps :: jsnum
  lastFrameTime :: rat

text \<open>The arguments of the \<open>useState\<close> calls (lines 19 to 27).\<close>

definition initialState :: state where
  "initialState =
     \<lparr>isModelLoading = True, error = None, isDetecting = False,
      backendStatus = ''connecting'', consecutiveErrors = 0, loadingTimeout = None,
      detectionCount = [''book'' \<mapsto> 0, ''laptop'' \<mapsto> 0], fps = Finite 0,
      lastFrameTime = 0\<rparr>"

text \<open>
  The 2d canvas: its bitmap is kept as the list of shapes painted since it was last
  blank; the context carries the styles, the font and the current path.
\<close>

datatype drawcmd =
    Stroke "(rat \<times> rat \<times> rat \<times> rat) list" string rat
  | FillRect string rat rat rat rat
  | FillText string string string rat rat
  | Erase rat rat rat rat

record canvas =
  cwidth :: nat
  cheight :: nat
  strokeStyle :: string
  fillStyle :: string
  lineWidth :: rat
  font :: string
  path :: "(rat \<times> rat \<times> rat \<times> rat) list"
  painted :: "drawcmd list"

text \<open>
  A pending timer: its handle, the time it is due and its callback. The callback is a
  function of the render \<open>snap\<close> that created it.
\<close>

datatype callback = ForceStart state | CheckBackend state

record timer =
  tid :: nat
  due :: nat
  callback :: callback

record page =
  ui :: state
  overlay :: canvas
  timers :: "timer list"
  nextHandle :: nat

record video =
  readyState :: nat
  videoWidth :: nat
  videoHeight :: nat

text \<open>
  What one cycle observes of its surroundings: whether the two refs are attached, the
  video element, \<open>performance.now()\<close>, the screenshot, whether \<open>getContext("2d")\<close>
  gives a context, and the browser's text metrics (font, then text).
\<close>

record env =
  webcamMounted :: bool
  canvasMounted :: bool
  video :: "video option"
  now :: rat
  screenshot :: "string option"
  context2d :: bool
  measureText :: "string \<Rightarrow> string \<Rightarrow> rat"

text \<open>
  The outcome of the POST to \<open>/detect\<close>: the fetch rejects (with the error's message);
  a status that is not ok, with the parsed body's \<open>detail\<close> (\<open>None\<close> when
  \<open>response.json()\<close> rejects) and the status text; an ok status whose body does not
  parse; an ok body whose \<open>predictions\<close> is no array (the \<open>filter\<close> call throws); an ok
  body with predictions; an ok body whose \<open>predictions\<close> array holds, after some
  well-formed predictions, an element without \<open>bbox\<close>, given with the \<open>class\<close> fields
  of that element and of the elements after it and with the message of the error that
  destructuring it throws (line 115).
\<close>

datatype response =
    FetchRejects string
  | NotOk "string option option" string
  | OkJsonRejects string
  | OkMalformed string
  | OkPredictions "prediction list"
  | OkBadElement "prediction list" "string option list" string

text \<open>The outcome of the GET to the health endpoint; \<open>HealthOk b\<close>: \<open>data.model_loaded\<close> is truthy or not.\<close>

datatype health = HealthRejects | HealthNotOk | HealthJsonRejects | HealthOk bool

subsection \<open>Setters\<close>

definition setFps :: "jsnum \<Rightarrow> page \<Rightarrow> page" where
  "setFps v w = w\<lparr>ui := (ui w)\<lparr>fps := v\<rparr>\<rparr>"

definition setLastFrameTime :: "rat \<Rightarrow> page \<Rightarrow> page" where
  "setLastFrameTime v w = w\<lparr>ui := (ui w)\<lparr>lastFrameTime := v\<rparr>\<rparr>"

definition setConsecutiveErrors :: "(nat \<Rightarrow> nat) \<Rightarrow> page \<Rightarrow> page" where
  "setConsecutiveErrors f w = w\<lparr>ui := (ui w)\<lparr>consecutiveErrors := f (consecutiveErrors (ui w))\<rparr>\<rparr>"

definition setDetectionCount :: "(string \<rightharpoonup> nat) \<Rightarrow> page \<Rightarrow> page" where
  "setDetectionCount v w = w\<lparr>ui := (ui w)\<lparr>detectionCount := v\<rparr>\<rparr>"

definition setError :: "string option \<Rightarrow> page \<Rightarrow> page" where
  "setError v w = w\<lparr>ui := (ui w)\<lparr>error := v\<rparr>\<rparr>"

definition setIsDetecting :: "bool \<Rightarrow> page \<Rightarrow> page" where
  "setIsDetecting v w = w\<lparr>ui := (ui w)\<lparr>isDetecting := v\<rparr>\<rparr>"

definition setIsModelLoading :: "bool \<Rightarrow> page \<Rightarrow> page" where
  "setIsModelLoading v w = w\<lparr>ui := (ui w)\<lparr>isModelLoading := v\<rparr>\<rparr>"

definition setBackendStatus :: "string \<Rightarrow> page \<Rightarrow> page" where
  "setBackendStatus v w = w\<lparr>ui := (ui w)\<lparr>backendStatus := v\<rparr>\<rparr>"

definition setLoadingTimeout :: "nat option \<Rightarrow> page \<Rightarrow> page" where
  "setLoadingTimeout v w = w\<lparr>ui := (ui w)\<lparr>loadingTimeout := v\<rparr>\<rparr>"

subsection \<open>Numbers and strings\<close>

text \<open>The number of binary digits of a natural number.\<close>

fun bits :: "nat \<Rightarrow> nat" where
  "bits n = (if n = 0 then 0 else Suc (bits (n div 2)))"

declare bits.simps [simp del]

definition pow2 :: "int \<Rightarrow> rat" where
  "pow2 k = (if 0 \<le> k then 2 ^ nat k else 1 / 2 ^ nat (- k))"

text \<open>For a positive \<open>a\<close>, the \<open>k\<close> with \<open>2^k \<le> a < 2^(k + 1)\<close>.\<close>

definition exponent :: "rat \<Rightarrow> int" where
  "exponent a =
     (if 1 \<le> a then int (bits (nat \<lfloor>a\<rfloor>)) - 1
      else let n = int (bits (nat \<lfloor>1 / a\<rfloor>))
           in if 1 / a = pow2 (n - 1) then 1 - n else - n)"

text \<open>The nearest integer, a tie going to the even one.\<close>

definition roundEven :: "rat \<Rightarrow> int" where
  "roundEven m =
     (let f = \<lfloor>m\<rfloor>; d = m - of_int f
      in if d < 1 / 2 then f else if 1 / 2 < d then f + 1 else if even f then f else f + 1)"

text \<open>
  The double nearest to a rational: 53 significant binary digits, ties to even. This is
  how a JSON number is read and how every arithmetic result is rounded. Overflow to
  \<open>Infinity\<close> and the subnormal range are not modelled.
\<close>

definition double_of :: "rat \<Rightarrow> rat" where
  "double_of x =
     (if x = 0 then 0
      else let ulp = pow2 (exponent \<bar>x\<bar> - 52)
           in sgn x * of_int (roundEven (\<bar>x\<bar> / ulp)) * ulp)"

definition dadd :: "rat \<Rightarrow> rat \<Rightarrow> rat" where
  "dadd a b = double_of (a + b)"

definition dsub :: "rat \<Rightarrow> rat \<Rightarrow> rat" where
  "dsub a b = double_of (a - b)"

definition dmul :: "rat \<Rightarrow> rat \<Rightarrow> rat" where
  "dmul a b = double_of (a * b)"

definition ddiv :: "rat \<Rightarrow> rat \<Rightarrow> rat" where
  "ddiv a b = double_of (a / b)"

text \<open>\<open>Math.round\<close>: the nearest integer, a tie going upwards.\<close>

definition round_js :: "rat \<Rightarrow> int" where
  "round_js x = \<lfloor>x + 1 / 2\<rfloor>"

text \<open>\<open>Math.round(1000 / delta)\<close>: a division by zero is \<open>Infinity\<close> in JavaScript.\<close>

definition fpsOf :: "rat \<Rightarrow> jsnum" where
  "fpsOf delta = (if delta = 0 then Infinity else Finite (round_js (ddiv 1000 delta)))"

fun showNat :: "nat \<Rightarrow> string" where
  "showNat n = (if n < 10 then [''0123456789'' ! n] else showNat (n div 10) @ [''0123456789'' ! (n mod 10)])"

declare showNat.simps [simp del]

text \<open>An integer inside a template literal (decimal digits, for magnitudes below \<open>10^21\<close>).\<close>

definition showInt :: "int \<Rightarrow> string" where
  "showInt i = (if i < 0 then ''-'' @ showNat (nat (- i)) else showNat (nat i))"

text \<open>The truthiness of a string or \<open>null\<close>.\<close>

definition truthyString :: "string option \<Rightarrow> bool" where
  "truthyString s = (case s of None \<Rightarrow> False | Some t \<Rightarrow> t \<noteq> [])"

subsection \<open>The canvas\<close>

text \<open>
  Assigning \<open>width\<close> or \<open>height\<close> of a canvas element gives it a blank bitmap of the
  new size and a context in its default state.
\<close>

definition blankCanvas :: "nat \<Rightarrow> nat \<Rightarrow> canvas" where
  "blankCanvas wd ht =
     \<lparr>cwidth = wd, cheight = ht, strokeStyle = ''#000000'', fillStyle = ''#000000'',
      lineWidth = 1, font = ''10px sans-serif'', path = [], painted = []\<rparr>"

definition setCanvasWidth :: "nat \<Rightarrow> canvas \<Rightarrow> canvas" where
  "setCanvasWidth wd c = blankCanvas wd (cheight c)"

definition setCanvasHeight :: "nat \<Rightarrow> canvas \<Rightarrow> canvas" where
  "setCanvasHeight ht c = blankCanvas (cwidth c) ht"

text \<open>A rectangle that covers the bitmap erases every shape; a smaller one is recorded.\<close>

definition clearRect :: "rat \<Rightarrow> rat \<Rightarrow> rat \<Rightarrow> rat \<Rightarrow> canvas \<Rightarrow> canvas" where
  "clearRect x y wd ht c =
     (if x \<le> 0 \<and> y \<le> 0 \<and> of_nat (cwidth c) \<le> x + wd \<and> of_nat (cheight c) \<le> y + ht
      then c\<lparr>painted := []\<rparr>
      else c\<lparr>painted := painted c @ [Erase x y wd ht]\<rparr>)"

definition beginPath :: "canvas \<Rightarrow> canvas" where
  "beginPath c = c\<lparr>path := []\<rparr>"

definition rect :: "rat \<Rightarrow> rat \<Rightarrow> rat \<Rightarrow> rat \<Rightarrow> canvas \<Rightarrow> canvas" where
  "rect x y wd ht c = c\<lparr>path := path c @ [(x, y, wd, ht)]\<rparr>"

definition stroke :: "canvas \<Rightarrow> canvas" where
  "stroke c = c\<lparr>painted := painted c @ [Stroke (path c) (strokeStyle c) (lineWidth c)]\<rparr>"

definition fillRect :: "rat \<Rightarrow> rat \<Rightarrow> rat \<Rightarrow> rat \<Rightarrow> canvas \<Rightarrow> canvas" where
  "fillRect x y wd ht c = c\<lparr>painted := painted c @ [FillRect (fillStyle c) x y wd ht]\<rparr>"

definition fillText :: "string \<Rightarrow> rat \<Rightarrow> rat \<Rightarrow> canvas \<Rightarrow> canvas" where
  "fillText txt x y c = c\<lparr>painted := painted c @ [FillText (fillStyle c) (font c) txt x y]\<rparr>"

subsection \<open>drawDetections (lines 99 to 141)\<close>

definition label :: "prediction \<Rightarrow> string" where
  "label p =
     (if class_name p = ''book''
      then ''Book '' @ showInt (round_js (dmul (score p) 100)) @ ''%''
      else ''Laptop '' @ showInt (round_js (dmul (score p) 100)) @ ''%'')"

definition classStyle :: "prediction \<Rightarrow> canvas \<Rightarrow> canvas" where
  "classStyle p c =
     (if class_name p = ''book'' then c\<lparr>strokeStyle := ''red'', fillStyle := ''red''\<rparr>
      else if class_name p = ''laptop'' then c\<lparr>strokeStyle := ''blue'', fillStyle := ''blue''\<rparr>
      else c)"

text \<open>The body of the \<open>forEach\<close> callback.\<close>

definition drawPrediction :: "env \<Rightarrow> prediction \<Rightarrow> canvas \<Rightarrow> canvas" where
  "drawPrediction e p c =
     (case bbox p of (x, y, wd, ht) \<Rightarrow>
        let c1 = classStyle p c;
            c2 = c1\<lparr>lineWidth := 2\<rparr>;
            c3 = stroke (rect x y wd ht (beginPath c2));
            textWidth = measureText e (font c3) (label p);
            c4 = fillRect x (dsub y 20) (dadd textWidth 10) 20 c3;
            c5 = c4\<lparr>fillStyle := ''white''\<rparr>;
            c6 = c5\<lparr>font := ''16px Arial''\<rparr>
        in fillText (label p) (dadd x 5) (dsub y 5) c6)"

definition drawDetections :: "env \<Rightarrow> prediction list \<Rightarrow> canvas \<Rightarrow> canvas" where
  "drawDetections e predictions c =
     (if canvasMounted e \<and> webcamMounted e then
        (case video e of
           None \<Rightarrow> c
         | Some v \<Rightarrow>
             let c1 = setCanvasWidth (videoWidth v) c;
                 c2 = setCanvasHeight (videoHeight v) c1
             in if context2d e
                then fold (drawPrediction e) predictions
                       (clearRect 0 0 (of_nat (videoWidth v)) (of_nat (videoHeight v)) c2)
                else c2)
      else c)"

subsection \<open>captureAndDetect (lines 31 to 97)\<close>

definition backendErrorMessage :: "string option option \<Rightarrow> string \<Rightarrow> string" where
  "backendErrorMessage body statusText =
     ''Backend error: '' @
       (case body of
          None \<Rightarrow> ''Unknown error''
        | Some None \<Rightarrow> statusText
        | Some (Some d) \<Rightarrow> (if d = [] then statusText else d))"

text \<open>
  The \<open>catch\<close> block (lines 87 to 94) for an error with message \<open>msg\<close>. The result's
  second component tells whether \<open>requestAnimationFrame(captureAndDetect)\<close> was called.
\<close>

definition catchBlock :: "state \<Rightarrow> string \<Rightarrow> page \<Rightarrow> page \<times> bool" where
  "catchBlock snap msg w =
     (if 5 < consecutiveErrors snap
      then (setIsDetecting False (setError (Some (''Detection error: '' @ msg)) w), False)
      else (w, True))"

definition countClass :: "string \<Rightarrow> prediction list \<Rightarrow> nat" where
  "countClass cls predictions = length (filter (\<lambda>p. class_name p = cls) predictions)"

text \<open>\<open>drawDetections\<close> gets as far as its \<open>forEach\<close>.\<close>

definition reachesForEach :: "env \<Rightarrow> bool" where
  "reachesForEach e =
     (canvasMounted e \<and> webcamMounted e \<and> context2d e
      \<and> (case video e of None \<Rightarrow> False | Some v \<Rightarrow> True))"

definition videoReady :: "env \<Rightarrow> bool" where
  "videoReady e = (case video e of None \<Rightarrow> False | Some v \<Rightarrow> readyState v = 4)"

definition afterResponse :: "state \<Rightarrow> env \<Rightarrow> response \<Rightarrow> page \<Rightarrow> page \<times> bool" where
  "afterResponse snap e r w =
     (case r of
        FetchRejects msg \<Rightarrow> catchBlock snap msg w
      | NotOk body statusText \<Rightarrow>
          let w1 = setConsecutiveErrors (\<lambda>prev. prev + 1) w
          in if 5 < consecutiveErrors snap
             then catchBlock snap (backendErrorMessage body statusText) w1
             else (w1, True)
      | OkJsonRejects msg \<Rightarrow> catchBlock snap msg (setConsecutiveErrors (\<lambda>prev. 0) w)
      | OkMalformed msg \<Rightarrow> catchBlock snap msg (setConsecutiveErrors (\<lambda>prev. 0) w)
      | OkPredictions predictions \<Rightarrow>
          let w1 = setConsecutiveErrors (\<lambda>prev. 0) w;
              w2 = setDetectionCount
                     [''book'' \<mapsto> countClass ''book'' predictions,
                      ''laptop'' \<mapsto> countClass ''laptop'' predictions] w1
          in (w2\<lparr>overlay := drawDetections e predictions (overlay w2)\<rparr>, True)
      | OkBadElement before classes msg \<Rightarrow>
          let w1 = setConsecutiveErrors (\<lambda>prev. 0) w;
              w2 = setDetectionCount
                     [''book'' \<mapsto> countClass ''book'' before
                                    + length (filter (\<lambda>c. c = Some ''book'') classes),
                      ''laptop'' \<mapsto> countClass ''laptop'' before
                                    + length (filter (\<lambda>c. c = Some ''laptop'') classes)] w1;
              w3 = w2\<lparr>overlay := drawDetections e before (overlay w2)\<rparr>
          in if reachesForEach e then catchBlock snap msg w3 else (w3, True))"

definition captureAndDetect :: "state \<Rightarrow> env \<Rightarrow> response \<Rightarrow> page \<Rightarrow> page \<times> bool" where
  "captureAndDetect snap e r w =
     (if webcamMounted e \<and> canvasMounted e \<and> isDetecting snap then
        if videoReady e then
          let w1 = (if 0 < lastFrameTime snap
                    then setFps (fpsOf (dsub (now e) (lastFrameTime snap))) w else w);
              w2 = setLastFrameTime (now e) w1
          in if truthyString (screenshot e) then afterResponse snap e r w2 else (w2, True)
        else (w, True)
      else (w, False))"

text \<open>
  The loop: \<open>requestAnimationFrame(captureAndDetect)\<close> inside \<open>captureAndDetect\<close> names
  the function of the same render, so every cycle of one run reads the same \<open>snap\<close>.
  The result tells whether a next cycle is still scheduled.
\<close>

fun runLoop :: "state \<Rightarrow> (env \<times> response) list \<Rightarrow> page \<Rightarrow> page \<times> bool" where
  "runLoop snap [] w = (w, True)"
| "runLoop snap ((e, r) # rest) w =
     (case captureAndDetect snap e r w of
        (w', True) \<Rightarrow> runLoop snap rest w'
      | (w', False) \<Rightarrow> (w', False))"

subsection \<open>Timers\<close>

definition setTimeout :: "callback \<Rightarrow> nat \<Rightarrow> nat \<Rightarrow> page \<Rightarrow> page" where
  "setTimeout cb delay t w =
     w\<lparr>timers := timers w @ [\<lparr>tid = nextHandle w, due = t + delay, callback = cb\<rparr>],
       nextHandle := Suc (nextHandle w)\<rparr>"

definition clearTimeout :: "nat \<Rightarrow> page \<Rightarrow> page" where
  "clearTimeout h w = w\<lparr>timers := filter (\<lambda>tm. tid tm \<noteq> h) (timers w)\<rparr>"

text \<open>
  The block \<open>if (loadingTimeout) { clearTimeout(loadingTimeout); setLoadingTimeout(null) }\<close>;
  a handle is truthy when it is not 0.
\<close>

definition clearLoadingTimeout :: "state \<Rightarrow> page \<Rightarrow> page" where
  "clearLoadingTimeout snap w =
     (case loadingTimeout snap of
        None \<Rightarrow> w
      | Some h \<Rightarrow> if 0 < h then setLoadingTimeout None (clearTimeout h w) else w)"

subsection \<open>forceStartDetection (lines 143 to 152) and checkBackend (lines 161 to 211)\<close>

definition forceStartDetection :: "state \<Rightarrow> page \<Rightarrow> page" where
  "forceStartDetection snap w =
     clearLoadingTimeout snap
       (setBackendStatus ''ready'' (setIsDetecting True (setIsModelLoading False (setError None w))))"

text \<open>
  \<open>checkBackend\<close> called at time \<open>t\<close>, up to its \<open>await fetch\<close>: the watchdog is armed
  with the \<open>forceStartDetection\<close> of the same render and its handle is stored.
\<close>

definition checkBackend_request :: "state \<Rightarrow> nat \<Rightarrow> page \<Rightarrow> page" where
  "checkBackend_request snap t w =
     (let w1 = setBackendStatus ''connecting'' w;
          timeout = nextHandle w1;
          w2 = setTimeout (ForceStart snap) 30000 t w1
      in setLoadingTimeout (Some timeout) w2)"

text \<open>The rest of \<open>checkBackend\<close>, run when the health request settles at time \<open>t\<close>.\<close>

definition checkBackend_response :: "state \<Rightarrow> nat \<Rightarrow> health \<Rightarrow> page \<Rightarrow> page" where
  "checkBackend_response snap t h w =
     (case h of
        HealthOk True \<Rightarrow>
          setIsDetecting True (setIsModelLoading False (setBackendStatus ''ready''
            (clearLoadingTimeout snap w)))
      | HealthOk False \<Rightarrow>
          setTimeout (CheckBackend snap) 2000 t (setBackendStatus ''model_loading'' w)
      | HealthNotOk \<Rightarrow>
          setIsModelLoading False (setBackendStatus ''error''
            (setError (Some ''Backend service returned an error. Please check the Python server logs.'')
              (clearLoadingTimeout snap w)))
      | _ \<Rightarrow>
          setIsModelLoading False (setBackendStatus ''error''
            (setError (Some ''Cannot connect to the backend. Please make sure the Python server is running.'')
              (clearLoadingTimeout snap w))))"

definition checkBackend :: "state \<Rightarrow> nat \<Rightarrow> nat \<Rightarrow> health \<Rightarrow> page \<Rightarrow> page" where
  "checkBackend snap t t' h w = checkBackend_response snap t' h (checkBackend_request snap t w)"

text \<open>A pending timer fires when it is due: it leaves the list and its callback runs.\<close>

definition fireTimer :: "nat \<Rightarrow> page \<Rightarrow> page" where
  "fireTimer h w =
     (case find (\<lambda>tm. tid tm = h) (timers w) of
        None \<Rightarrow> w
      | Some tm \<Rightarrow>
          (case callback tm of
             ForceStart snap \<Rightarrow> forceStartDetection snap (clearTimeout h w)
           | CheckBackend snap \<Rightarrow> checkBackend_request snap (due tm) (clearTimeout h w)))"

text \<open>The page when the component mounts: a canvas element starts 300 by 150.\<close>

definition initialPage :: page where
  "initialPage = \<lparr>ui = initialState, overlay = blankCanvas 300 150, timers = [], nextHandle = 1\<rparr>"

subsection \<open>Vocabulary of the properties\<close>

text \<open>
  A cycle gets past its guards (lines 32 to 38) when both refs are attached, the closure
  was created with \<open>isDetecting\<close> true and the video has \<open>readyState\<close> 4; it sends the
  request when the screenshot is truthy as well.
\<close>

definition frameCaptured :: "state \<Rightarrow> env \<Rightarrow> bool" where
  "frameCaptured snap e = (webcamMounted e \<and> canvasMounted e \<and> isDetecting snap \<and> videoReady e)"

definition requestSent :: "state \<Rightarrow> env \<Rightarrow> bool" where
  "requestSent snap e = (frameCaptured snap e \<and> truthyString (screenshot e))"

text \<open>A failed inference call: every outcome but an ok body with predictions.\<close>

fun failed :: "response \<Rightarrow> bool" where
  "failed (OkPredictions predictions) = False"
| "failed r = True"

text \<open>A failure that is noticed before \<open>drawDetections\<close> is called.\<close>

fun failsBeforeDrawing :: "response \<Rightarrow> bool" where
  "failsBeforeDrawing (OkPredictions predictions) = False"
| "failsBeforeDrawing (OkBadElement before classes msg) = False"
| "failsBeforeDrawing r = True"

text \<open>A class the component knows.\<close>

definition knownClass :: "prediction \<Rightarrow> bool" where
  "knownClass p = (class_name p = ''book'' \<or> class_name p = ''laptop'')"



text \<open>
  The watchdog with handle \<open>h\<close>, due at \<open>t\<close> and created by render \<open>snap\<close>, is pending
  in \<open>w\<close>, and no other timer has its handle.
\<close>

definition armed :: "nat \<Rightarrow> nat \<Rightarrow> state \<Rightarrow> page \<Rightarrow> bool" where
  "armed h t snap w =
     (h < nextHandle w \<and> \<lparr>tid = h, due = t, callback = ForceStart snap\<rparr> \<in> set (timers w)
      \<and> (\<forall>tm \<in> set (timers w). tid tm = h \<longrightarrow> tm = \<lparr>tid = h, due = t, callback = ForceStart snap\<rparr>))"

subsection \<open>Concrete inputs\<close>

text \<open>
  A fresh mount: the first \<open>checkBackend\<close> is called at time 0 by the closure of the
  initial render and its health response, 120 ms later, reports the model as loaded.
  \<open>startedState\<close> is the render that follows, the one whose effect (lines 223 to 231)
  starts the detection loop. Before that effect runs, the cleanup of the previous render's
  effect has called \<open>setIsDetecting(false)\<close>: on \<open>startedPage\<close>, the page the loop runs
  on, the cell is false, while the loop's closure goes on reading true.
\<close>

definition loadedPage :: page where
  "loadedPage = checkBackend initialState 0 120 (HealthOk True) initialPage"

definition startedState :: state where
  "startedState = ui loadedPage"

definition startedPage :: page where
  "startedPage = setIsDetecting False loadedPage"

text \<open>A mounted 640 by 480 camera at time \<open>t\<close>; text is measured as 8 pixels a character.\<close>

definition cameraAt :: "rat \<Rightarrow> env" where
  "cameraAt t =
     \<lparr>webcamMounted = True, canvasMounted = True,
      video = Some \<lparr>readyState = 4, videoWidth = 640, videoHeight = 480\<rparr>, now = t,
      screenshot = Some ''data:image/jpeg;base64,AAAA'', context2d = True,
      measureText = (\<lambda>f s. 8 * of_nat (length s))\<rparr>"

definition http500 :: response where
  "http500 = NotOk (Some (Some ''boom'')) ''Internal Server Error''"

text \<open>
  Six cycles whose requests the backend answers with status 500 after almost five
  seconds each, the last answer arriving just before 30000 ms.
\<close>

definition sixFailures :: "(env \<times> response) list" where
  "sixFailures =
     [(cameraAt 150, http500), (cameraAt 5150, http500), (cameraAt 10150, http500),
      (cameraAt 15150, http500), (cameraAt 20150, http500), (cameraAt 25150, http500)]"

definition threePredictions :: "prediction list" where
  "threePredictions =
     [\<lparr>bbox = (10, 30, 100, 50), class_name = ''book'', score = double_of (9 / 10)\<rparr>,
      \<lparr>bbox = (200, 40, 80, 60), class_name = ''book'', score = double_of (4 / 10)\<rparr>,
      \<lparr>bbox = (300, 100, 120, 90), class_name = ''laptop'', score = double_of (8 / 10)\<rparr>]"

definition catPrediction :: prediction where
  "catPrediction =
     \<lparr>bbox = (10, 30, 100, 50), class_name = ''cat'', score = double_of (8 / 10)\<rparr>"

text \<open>A page whose last successful cycle counted seven books and three laptops.\<close>

definition busyPage :: page where
  "busyPage = setDetectionCount [''book'' \<mapsto> 7, ''laptop'' \<mapsto> 3] startedPage"



text \<open>
  The fresh mount goes on: the six failures leave the counter cell at 6, and at 30000 ms
  the watchdog of the first \<open>checkBackend\<close>, which the loaded response did not cancel,
  runs \<open>forceStartDetection\<close>. That sets the \<open>isDetecting\<close> cell from false to true, so
  the effect of the next render, \<open>restartedState\<close>, starts a second loop with the closure
  of that render; as before, the cleanup has set the cell to false on \<open>restartedPage\<close>.
  The first loop goes on beside the second one.
\<close>

definition restartedState :: state where
  "restartedState = ui (fireTimer 1 (fst (runLoop startedState sixFailures startedPage)))"

definition restartedPage :: page where
  "restartedPage =
     setIsDetecting False (fireTimer 1 (fst (runLoop startedState sixFailures startedPage)))"

text \<open>The second loop gets a successful response and then one with status 500.\<close>

definition successThenFailure :: "(env \<times> response) list" where
  "successThenFailure = [(cameraAt 30016, OkPredictions threePredictions), (cameraAt 30100, http500)]"

text \<open>Three successful cycles 100 ms apart on the fresh mount.\<close>

definition threeFrames :: "(env \<times> response) list" where
  "threeFrames =
     [(cameraAt 200, OkPredictions threePredictions), (cameraAt 300, OkPredictions threePredictions),
      (cameraAt 400, OkPredictions threePredictions)]"

text \<open>The fresh mount with the three predictions drawn on the overlay.\<close>

definition shownPage :: page where
  "shownPage =
     startedPage\<lparr>overlay := drawDetections (cameraAt 200) threePredictions (overlay startedPage)\<rparr>"

text \<open>An ok body \<open>{predictions: [{class: "book", score: 0.9}]}\<close>: the element has no \<open>bbox\<close>.\<close>

definition noBbox :: response where
  "noBbox = OkBadElement [] [Some ''book''] ''undefined is not iterable''"

section \<open>Properties\<close>

lemmas setters = setFps_def setLastFrameTime_def setConsecutiveErrors_def setDetectionCount_def
  setError_def setIsDetecting_def setIsModelLoading_def setBackendStatus_def setLoadingTimeout_def

lemmas cycle_defs = captureAndDetect_def afterResponse_def catchBlock_def videoReady_def
  truthyString_def Let_def

lemmas monitor_defs = checkBackend_def checkBackend_request_def checkBackend_response_def
  fireTimer_def forceStartDetection_def setTimeout_def clearTimeout_def clearLoadingTimeout_def Let_def

lemmas ctx_defs = beginPath_def rect_def stroke_def fillRect_def fillText_def

subsection \<open>Doubles, evaluated\<close>

lemma floor_fraction: "\<lfloor>(numeral a :: rat) / numeral b\<rfloor> = numeral a div numeral b"
  using floor_divide_of_int_eq [where ?'a = rat, of "numeral a" "numeral b"] by simp

lemmas double_defs = double_of_def exponent_def bits.simps pow2_def roundEven_def Let_def
  floor_fraction

lemma double_of_0_8: "double_of (8 / 10) = 3602879701896397 / 4503599627370496"
  by (simp add: double_defs)

lemma percent_0_8: "round_js (dmul (double_of (8 / 10)) 100) = 80"
  by (simp add: dmul_def double_of_0_8) (simp add: double_defs round_js_def)

text \<open>
  The product is rounded before \<open>Math.round\<close> sees it: 0.045 times 100 is the double 4.5
  and 0.6749999999999999 times 100 is the double 67.5.
\<close>

lemma percent_0_045: "round_js (dmul (double_of (45 / 1000)) 100) = 5"
  by (simp add: dmul_def double_defs) (simp add: round_js_def floor_fraction)

lemma percent_0_675: "round_js (dmul (double_of (6749999999999999 / 10000000000000000)) 100) = 68"
  by (simp add: dmul_def double_defs) (simp add: round_js_def floor_fraction)

lemma dsub_30_20: "dsub 30 20 = 10"
  by (simp add: dsub_def double_defs)

lemma dsub_30_5: "dsub 30 5 = 25"
  by (simp add: dsub_def double_defs)

lemma dadd_80_10: "dadd 80 10 = 90"
  by (simp add: dadd_def double_defs)

lemma dadd_10_5: "dadd 10 5 = 15"
  by (simp add: dadd_def double_defs)

lemma fps_100_200_300:
  "fpsOf (dsub 200 100) = Finite 10 \<and> fpsOf (dsub 300 100) = Finite 5
   \<and> fpsOf (dsub 400 100) = Finite 3"
  by (simp add: fpsOf_def dsub_def ddiv_def double_defs) (simp add: round_js_def floor_fraction)

subsection \<open>The concrete inputs, evaluated\<close>

lemma loadedPage_eq:
  "loadedPage =
     \<lparr>ui = \<lparr>isModelLoading = False, error = None, isDetecting = True, backendStatus = ''ready'',
             consecutiveErrors = 0, loadingTimeout = Some 1,
             detectionCount = [''book'' \<mapsto> 0, ''laptop'' \<mapsto> 0], fps = Finite 0,
             lastFrameTime = 0\<rparr>,
      overlay = blankCanvas 300 150,
      timers = [\<lparr>tid = 1, due = 30000, callback = ForceStart initialState\<rparr>],
      nextHandle = 2\<rparr>"
  by (simp add: loadedPage_def monitor_defs initialPage_def initialState_def setters)

lemma startedPage_eq:
  "startedPage =
     \<lparr>ui = \<lparr>isModelLoading = False, error = None, isDetecting = False, backendStatus = ''ready'',
             consecutiveErrors = 0, loadingTimeout = Some 1,
             detectionCount = [''book'' \<mapsto> 0, ''laptop'' \<mapsto> 0], fps = Finite 0,
             lastFrameTime = 0\<rparr>,
      overlay = blankCanvas 300 150,
      timers = [\<lparr>tid = 1, due = 30000, callback = ForceStart initialState\<rparr>],
      nextHandle = 2\<rparr>"
  by (simp add: startedPage_def loadedPage_eq setters)

lemma startedState_eq:
  "startedState =
     \<lparr>isModelLoading = False, error = None, isDetecting = True, backendStatus = ''ready'',
      consecutiveErrors = 0, loadingTimeout = Some 1,
      detectionCount = [''book'' \<mapsto> 0, ''laptop'' \<mapsto> 0], fps = Finite 0, lastFrameTime = 0\<rparr>"
  by (simp add: startedState_def loadedPage_eq)

lemma requestSent_camera: "requestSent startedState (cameraAt t)"
  by (simp add: requestSent_def frameCaptured_def videoReady_def truthyString_def cameraAt_def
      startedState_eq)

lemma afterSixFailures_eq:
  "fst (runLoop startedState sixFailures startedPage) =
     \<lparr>ui = \<lparr>isModelLoading = False, error = None, isDetecting = False, backendStatus = ''ready'',
             consecutiveErrors = 6, loadingTimeout = Some 1,
             detectionCount = [''book'' \<mapsto> 0, ''laptop'' \<mapsto> 0], fps = Finite 0,
             lastFrameTime = 25150\<rparr>,
      overlay = blankCanvas 300 150,
      timers = [\<lparr>tid = 1, due = 30000, callback = ForceStart initialState\<rparr>],
      nextHandle = 2\<rparr>"
  by (simp add: sixFailures_def http500_def cameraAt_def startedState_eq startedPage_eq
      cycle_defs setters)

lemma restartedState_eq:
  "restartedState =
     \<lparr>isModelLoading = False, error = None, isDetecting = True, backendStatus = ''ready'',
      consecutiveErrors = 6, loadingTimeout = Some 1,
      detectionCount = [''book'' \<mapsto> 0, ''laptop'' \<mapsto> 0], fps = Finite 0,
      lastFrameTime = 25150\<rparr>"
  by (simp add: restartedState_def afterSixFailures_eq monitor_defs initialState_def setters)

lemma restartedPage_eq:
  "restartedPage =
     \<lparr>ui = \<lparr>isModelLoading = False, error = None, isDetecting = False, backendStatus = ''ready'',
             consecutiveErrors = 6, loadingTimeout = Some 1,
             detectionCount = [''book'' \<mapsto> 0, ''laptop'' \<mapsto> 0], fps = Finite 0,
             lastFrameTime = 25150\<rparr>,
      overlay = blankCanvas 300 150, timers = [], nextHandle = 2\<rparr>"
  by (simp add: restartedPage_def afterSixFailures_eq monitor_defs initialState_def setters)

lemma label_cat: "label catPrediction = ''Laptop 80%''"
proof -
  have "round_js (dmul (score catPrediction) 100) = 80"
    using percent_0_8 by (simp add: catPrediction_def)
  moreover have "class_name catPrediction \<noteq> ''book''"
    by (simp add: catPrediction_def)
  ultimately show ?thesis
    by (simp add: label_def showInt_def showNat.simps)
qed

subsection \<open>One cycle of the detection loop\<close>

lemma afterResponse_fps: "fps (ui (fst (afterResponse snap e r w))) = fps (ui w)"
  by (cases r) (simp_all add: afterResponse_def catchBlock_def setters Let_def)

lemma cycle_overlay:
  "failsBeforeDrawing r \<Longrightarrow> overlay (fst (captureAndDetect snap e r w)) = overlay w"
  by (cases r) (simp_all add: captureAndDetect_def afterResponse_def catchBlock_def Let_def setters)

text \<open>
  While the closure's \<open>consecutiveErrors\<close> is at most 5, no outcome of a cycle stops the
  loop or sets \<open>error\<close>.
\<close>

lemma cycle_transient:
  "consecutiveErrors snap \<le> 5 \<Longrightarrow> webcamMounted e \<and> canvasMounted e \<and> isDetecting snap \<Longrightarrow>
   snd (captureAndDetect snap e r w)
   \<and> error (ui (fst (captureAndDetect snap e r w))) = error (ui w)
   \<and> isDetecting (ui (fst (captureAndDetect snap e r w))) = isDetecting (ui w)"
  by (cases r) (simp_all add: captureAndDetect_def afterResponse_def catchBlock_def Let_def setters)

lemma runLoop_transient:
  "consecutiveErrors snap \<le> 5 \<Longrightarrow> list_all (\<lambda>(e, r). requestSent snap e) inputs \<Longrightarrow>
   snd (runLoop snap inputs w)
   \<and> error (ui (fst (runLoop snap inputs w))) = error (ui w)
   \<and> isDetecting (ui (fst (runLoop snap inputs w))) = isDetecting (ui w)"
proof (induction inputs arbitrary: w)
  case Nil
  then show ?case by simp
next
  case (Cons x inputs)
  obtain e r where x: "x = (e, r)" by (cases x)
  from Cons.prems x have g: "webcamMounted e \<and> canvasMounted e \<and> isDetecting snap"
    by (simp add: requestSent_def frameCaptured_def)
  obtain w' b where c: "captureAndDetect snap e r w = (w', b)"
    by (cases "captureAndDetect snap e r w")
  from cycle_transient [OF Cons.prems(1) g, of r w] c
  have b: "b" and keep: "error (ui w') = error (ui w)" "isDetecting (ui w') = isDetecting (ui w)"
    by simp_all
  from Cons.prems have rest: "list_all (\<lambda>(e, r). requestSent snap e) inputs" by simp
  from Cons.IH [OF Cons.prems(1) rest, of w'] show ?case
    by (simp add: x c b keep)
qed

lemma runLoop_append:
  "snd (runLoop snap xs w) \<Longrightarrow>
   runLoop snap (xs @ ys) w = runLoop snap ys (fst (runLoop snap xs w))"
proof (induction xs arbitrary: w)
  case Nil
  then show ?case by simp
next
  case (Cons x xs)
  obtain e r where x: "x = (e, r)" by (cases x)
  obtain w' b where c: "captureAndDetect snap e r w = (w', b)"
    by (cases "captureAndDetect snap e r w")
  show ?case
  proof (cases b)
    case True
    with Cons x c show ?thesis by simp
  next
    case False
    with Cons.prems x c show ?thesis by simp
  qed
qed

lemma success_resets:
  "requestSent snap e \<Longrightarrow>
   consecutiveErrors (ui (fst (captureAndDetect snap e (OkPredictions ps) w))) = 0"
  by (simp add: requestSent_def frameCaptured_def captureAndDetect_def afterResponse_def Let_def setters)

text \<open>
  A closure created with \<open>consecutiveErrors\<close> above 5 stops the loop and sets \<open>error\<close> at
  its first response with a status that is not ok, whatever the counter cell holds.
\<close>

lemma stale_counter_is_fatal:
  "5 < consecutiveErrors snap \<Longrightarrow> requestSent snap e \<Longrightarrow>
   \<not> snd (captureAndDetect snap e (NotOk body statusText) w)
   \<and> error (ui (fst (captureAndDetect snap e (NotOk body statusText) w)))
       = Some (''Detection error: '' @ backendErrorMessage body statusText)"
  by (simp add: requestSent_def frameCaptured_def captureAndDetect_def afterResponse_def
      catchBlock_def Let_def setters)

text \<open>
  C1. The claim: on the 6th consecutive failed response the loop stops and an error is
  surfaced. The code does not do so: the test \<open>consecutiveErrors > 5\<close> reads the constant
  of the render that created the running closure, which the setter on the line before
  does not change. On a fresh mount that constant is 0: after six responses with
  status 500 the counter cell holds 6, \<open>error\<close> is still \<open>null\<close> and the next cycle is
  scheduled.
\<close>

theorem six_failures_do_not_stop:
  "snd (runLoop startedState sixFailures startedPage)
   \<and> error (ui (fst (runLoop startedState sixFailures startedPage))) = None
   \<and> consecutiveErrors (ui (fst (runLoop startedState sixFailures startedPage))) = 6"
  by (simp add: sixFailures_def http500_def cameraAt_def startedState_eq startedPage_eq
      cycle_defs setters)

text \<open>
  A run whose closure was created with \<open>consecutiveErrors\<close> at most 5 tolerates failures:
  any failed inference calls followed by a successful one never stop the loop and never
  set \<open>error\<close>, at any point of the sequence, and the counter cell is 0 after the success.
\<close>

lemma low_closure_tolerates_failures:
  assumes cap: "consecutiveErrors snap \<le> 5"
    and fs: "list_all (\<lambda>(e, r). requestSent snap e \<and> failed r) fs"
    and ok: "requestSent snap e"
  shows "(\<forall>n. let (w', scheduled) = runLoop snap (take n (fs @ [(e, OkPredictions ps)])) w
              in scheduled \<and> error (ui w') = error (ui w))
       \<and> consecutiveErrors (ui (fst (runLoop snap (fs @ [(e, OkPredictions ps)]) w))) = 0"
proof -
  have fsr: "list_all (\<lambda>(e', r). requestSent snap e') fs"
    using fs by (auto simp add: list_all_iff)
  then have all: "list_all (\<lambda>(e', r). requestSent snap e') (fs @ [(e, OkPredictions ps)])"
    using ok by simp
  have pre: "list_all (\<lambda>(e', r). requestSent snap e') (take n (fs @ [(e, OkPredictions ps)]))" for n
    using all unfolding list_all_iff by (meson in_set_takeD)
  have first: "\<forall>n. let (w', scheduled) = runLoop snap (take n (fs @ [(e, OkPredictions ps)])) w
                 in scheduled \<and> error (ui w') = error (ui w)"
    using runLoop_transient [OF cap pre, of _ w] by (simp add: split_beta)
  have run: "snd (runLoop snap fs w)"
    using runLoop_transient [OF cap fsr, of w] by simp
  obtain w' b where c: "captureAndDetect snap e (OkPredictions ps) (fst (runLoop snap fs w)) = (w', b)"
    by (cases "captureAndDetect snap e (OkPredictions ps) (fst (runLoop snap fs w))")
  have "consecutiveErrors (ui w') = 0"
    using success_resets [OF ok, of ps "fst (runLoop snap fs w)"] c by simp
  then have last: "consecutiveErrors (ui (fst (runLoop snap (fs @ [(e, OkPredictions ps)]) w))) = 0"
    using c by (cases b) (simp_all add: runLoop_append [OF run])
  from first last show ?thesis by blast
qed

text \<open>
  C2. The claim: at most five consecutive failed inference calls followed by a success
  never bring the session to the fatal error state, and the counter is 0 after the
  success. The code breaks it in the loop that the watchdog restarts after six failures:
  its closure was created with \<open>consecutiveErrors\<close> 6. Its first response is a success and
  sets the counter cell to 0; the next response, the first failure after that success,
  has status 500: the closure still reads 6, throws, sets \<open>error\<close> and stops the loop.
\<close>

theorem one_failure_after_success_is_fatal:
  "snd (runLoop restartedState (take 1 successThenFailure) restartedPage)
   \<and> consecutiveErrors (ui (fst (runLoop restartedState (take 1 successThenFailure) restartedPage))) = 0
   \<and> \<not> snd (runLoop restartedState successThenFailure restartedPage)
   \<and> error (ui (fst (runLoop restartedState successThenFailure restartedPage)))
       = Some ''Detection error: Backend error: boom''
   \<and> consecutiveErrors (ui (fst (runLoop restartedState successThenFailure restartedPage))) = 1"
  by (simp add: successThenFailure_def http500_def cameraAt_def restartedState_eq restartedPage_eq
      cycle_defs backendErrorMessage_def setters)

text \<open>
  C5. The claim: each cycle with a previous frame timestamp sets fps to
  \<open>round(1000 / (now - last))\<close>. The code stores the timestamp with
  \<open>setLastFrameTime(now)\<close> but reads \<open>lastFrameTime\<close> from the render that created the
  running closure. On a fresh mount that constant is 0: three successful cycles at 200,
  300 and 400 ms store the timestamps, yet the guard \<open>lastFrameTime > 0\<close> fails in each
  of them and fps stays at its initial 0, where the claim gives 10.
\<close>

theorem fps_stays_zero:
  "snd (runLoop startedState threeFrames startedPage)
   \<and> lastFrameTime (ui (fst (runLoop startedState (take 1 threeFrames) startedPage))) = 200
   \<and> fps (ui (fst (runLoop startedState (take 2 threeFrames) startedPage))) = Finite 0
   \<and> fps (ui (fst (runLoop startedState threeFrames startedPage))) = Finite 0
   \<and> lastFrameTime (ui (fst (runLoop startedState threeFrames startedPage))) = 400"
  by (simp add: threeFrames_def cameraAt_def startedState_eq startedPage_eq cycle_defs setters)

text \<open>
  A closure created with \<open>lastFrameTime\<close> 100 measures every frame from that one stamp:
  frames at 200, 300 and 400 ms report 10, 5 and 3.
\<close>

lemma fps_from_stale_stamp:
  "fps (ui (fst (captureAndDetect (startedState\<lparr>lastFrameTime := 100\<rparr>) (cameraAt 200) r w)))
     = Finite 10
   \<and> fps (ui (fst (captureAndDetect (startedState\<lparr>lastFrameTime := 100\<rparr>) (cameraAt 300) r w)))
     = Finite 5
   \<and> fps (ui (fst (captureAndDetect (startedState\<lparr>lastFrameTime := 100\<rparr>) (cameraAt 400) r w)))
     = Finite 3"
  by (simp add: captureAndDetect_def afterResponse_fps videoReady_def cameraAt_def startedState_eq
      fps_100_200_300 setters Let_def)

text \<open>
  C6. A cycle that sends its request and gets an ok response with predictions sets the
  counts to the number of predictions of class book and of class laptop in that
  response, whatever the counts were before. For the three predictions of the claim,
  on a page that showed 7 books and 3 laptops, the counts are book 2 and laptop 1.
\<close>

theorem counts_recomputed:
  assumes "requestSent snap e"
  shows "detectionCount (ui (fst (captureAndDetect snap e (OkPredictions ps) w)))
           = [''book'' \<mapsto> length (filter (\<lambda>p. class_name p = ''book'') ps),
              ''laptop'' \<mapsto> length (filter (\<lambda>p. class_name p = ''laptop'') ps)]"
  using assms
  by (simp add: requestSent_def frameCaptured_def captureAndDetect_def afterResponse_def Let_def
      setters countClass_def)

theorem counts_recomputed_witness:
  "requestSent startedState (cameraAt 100)
   \<and> detectionCount (ui busyPage) = [''book'' \<mapsto> 7, ''laptop'' \<mapsto> 3]
   \<and> detectionCount (ui (fst (captureAndDetect startedState (cameraAt 100)
        (OkPredictions threePredictions) busyPage))) = [''book'' \<mapsto> 2, ''laptop'' \<mapsto> 1]"
proof -
  have books: "length (filter (\<lambda>p. class_name p = ''book'') threePredictions) = 2"
    by (simp add: threePredictions_def)
  have laptops: "length (filter (\<lambda>p. class_name p = ''laptop'') threePredictions) = 1"
    by (simp add: threePredictions_def)
  from counts_recomputed [OF requestSent_camera, of 100 threePredictions busyPage]
  show ?thesis
    unfolding books laptops by (simp add: requestSent_camera busyPage_def setters)
qed

text \<open>
  A failure noticed before \<open>drawDetections\<close> is called (a status that is not ok, a
  rejected fetch, a body that does not parse, predictions that are no array) leaves the
  overlay as it was, over any run of such cycles.
\<close>

lemma early_failures_keep_overlay:
  assumes "list_all (\<lambda>(e, r). failsBeforeDrawing r) inputs"
  shows "overlay (fst (runLoop snap inputs w)) = overlay w"
  using assms
proof (induction inputs arbitrary: w)
  case Nil
  then show ?case by simp
next
  case (Cons x inputs)
  obtain e r where x: "x = (e, r)" by (cases x)
  obtain w' b where c: "captureAndDetect snap e r w = (w', b)"
    by (cases "captureAndDetect snap e r w")
  from Cons.prems x have "failsBeforeDrawing r" by simp
  from cycle_overlay [OF this, of snap e w] c have o: "overlay w' = overlay w" by simp
  from Cons.prems have "list_all (\<lambda>(e, r). failsBeforeDrawing r) inputs" by simp
  from Cons.IH [OF this, of w'] show ?case by (cases b) (simp_all add: x c o)
qed

lemma shown_overlay: "length (painted (overlay shownPage)) = 9"
  by (simp add: shownPage_def threePredictions_def drawDetections_def cameraAt_def
      setCanvasWidth_def setCanvasHeight_def clearRect_def blankCanvas_def drawPrediction_def
      ctx_defs classStyle_def Let_def)

text \<open>
  C8. The claim: a transient inference failure leaves the overlay unchanged, the
  renderer is not invoked. The code breaks it for an ok response with a malformed
  prediction: \<open>drawDetections\<close> is called inside the \<open>try\<close>, resizes and clears the canvas
  (lines 106 to 112) and throws at the element without \<open>bbox\<close> (line 115); the \<open>catch\<close>
  treats the error as transient. On a page whose overlay shows three predictions (nine
  shapes), such a response leaves an empty overlay, no error and the next cycle
  scheduled.
\<close>

theorem bad_element_wipes_overlay:
  "snd (captureAndDetect startedState (cameraAt 300) noBbox shownPage)
   \<and> error (ui (fst (captureAndDetect startedState (cameraAt 300) noBbox shownPage))) = None
   \<and> length (painted (overlay shownPage)) = 9
   \<and> painted (overlay (fst (captureAndDetect startedState (cameraAt 300) noBbox shownPage))) = []"
  by (simp add: shown_overlay)
     (simp add: noBbox_def shownPage_def cameraAt_def startedState_eq startedPage_eq cycle_defs
      reachesForEach_def drawDetections_def setCanvasWidth_def setCanvasHeight_def clearRect_def
      blankCanvas_def setters)

lemma cycle_dom:
  "dom (detectionCount (ui w)) = {''book'', ''laptop''} \<Longrightarrow>
   dom (detectionCount (ui (fst (captureAndDetect snap e r w)))) = {''book'', ''laptop''}"
  by (cases r) (auto simp add: captureAndDetect_def afterResponse_def catchBlock_def Let_def setters)

lemma countClass_known:
  "cls = ''book'' \<or> cls = ''laptop'' \<Longrightarrow> countClass cls (filter knownClass ps) = countClass cls ps"
  by (induction ps) (auto simp add: countClass_def knownClass_def)

text \<open>
  C10. A cycle keeps the keys of the count mapping: if they were book and laptop before
  (as in the initial state), they are book and laptop after, whatever the response. The
  counts after an ok response are those of its book and laptop predictions alone: the
  predictions of other classes can be removed without changing them.
\<close>

theorem counts_keys_book_laptop:
  assumes "dom (detectionCount (ui w)) = {''book'', ''laptop''}"
  shows "dom (detectionCount (ui (fst (captureAndDetect snap e r w)))) = {''book'', ''laptop''}
       \<and> detectionCount (ui (fst (captureAndDetect snap e (OkPredictions ps) w)))
         = detectionCount (ui (fst (captureAndDetect snap e (OkPredictions (filter knownClass ps)) w)))"
  using assms
  by (simp add: cycle_dom)
     (simp add: captureAndDetect_def afterResponse_def Let_def setters countClass_known)

theorem counts_keys_book_laptop_witness:
  "dom (detectionCount (ui startedPage)) = {''book'', ''laptop''}
   \<and> dom (detectionCount (ui (fst (captureAndDetect startedState (cameraAt 100)
        (OkPredictions (catPrediction # threePredictions)) startedPage)))) = {''book'', ''laptop''}
   \<and> detectionCount (ui (fst (captureAndDetect startedState (cameraAt 100)
        (OkPredictions (catPrediction # threePredictions)) startedPage)))
     = detectionCount (ui (fst (captureAndDetect startedState (cameraAt 100)
        (OkPredictions (filter knownClass (catPrediction # threePredictions))) startedPage)))"
proof -
  have h: "dom (detectionCount (ui startedPage)) = {''book'', ''laptop''}"
    by (auto simp add: startedPage_eq)
  from counts_keys_book_laptop [OF h, of startedState "cameraAt 100"
      "OkPredictions (catPrediction # threePredictions)" "catPrediction # threePredictions"] h
  show ?thesis by blast
qed

subsection \<open>The overlay renderer\<close>

lemma drawPrediction_size:
  "cwidth (drawPrediction e p c) = cwidth c \<and> cheight (drawPrediction e p c) = cheight c"
  by (cases "bbox p") (simp add: drawPrediction_def ctx_defs classStyle_def Let_def)

lemma fold_drawPrediction_size:
  "cwidth (fold (drawPrediction e) ps c) = cwidth c
   \<and> cheight (fold (drawPrediction e) ps c) = cheight c"
  by (induction ps arbitrary: c) (simp_all add: drawPrediction_size)

lemma drawDetections_blank:
  "canvasMounted e \<Longrightarrow> webcamMounted e \<Longrightarrow> video e = Some v \<Longrightarrow>
   drawDetections e ps c =
     (if context2d e
      then fold (drawPrediction e) ps (blankCanvas (videoWidth v) (videoHeight v))
      else blankCanvas (videoWidth v) (videoHeight v))"
  by (simp add: drawDetections_def setCanvasWidth_def setCanvasHeight_def clearRect_def
      blankCanvas_def)

text \<open>
  C7. When the canvas and the video are mounted (otherwise \<open>drawDetections\<close> returns
  at once and draws nothing), the result of \<open>drawDetections\<close> does not depend on what
  the canvas held before: two different prior canvases give the same canvas. It has the
  video's pixel size, and with no predictions nothing is painted on it.
\<close>

theorem drawDetections_clears:
  assumes "canvasMounted e" "webcamMounted e" "video e = Some v"
  shows "drawDetections e ps c = drawDetections e ps c'
       \<and> cwidth (drawDetections e ps c) = videoWidth v
       \<and> cheight (drawDetections e ps c) = videoHeight v
       \<and> painted (drawDetections e [] c) = []"
  using assms
  by (simp add: drawDetections_blank fold_drawPrediction_size) (simp add: blankCanvas_def)

theorem drawDetections_clears_witness:
  "canvasMounted (cameraAt 0) \<and> webcamMounted (cameraAt 0)
   \<and> video (cameraAt 0) = Some \<lparr>readyState = 4, videoWidth = 640, videoHeight = 480\<rparr>
   \<and> drawDetections (cameraAt 0) threePredictions
        (drawDetections (cameraAt 0) [catPrediction] (blankCanvas 300 150))
     = drawDetections (cameraAt 0) threePredictions (blankCanvas 300 150)
   \<and> cwidth (drawDetections (cameraAt 0) threePredictions
        (drawDetections (cameraAt 0) [catPrediction] (blankCanvas 300 150))) = 640
   \<and> cheight (drawDetections (cameraAt 0) threePredictions
        (drawDetections (cameraAt 0) [catPrediction] (blankCanvas 300 150))) = 480
   \<and> painted (drawDetections (cameraAt 0) []
        (drawDetections (cameraAt 0) [catPrediction] (blankCanvas 300 150))) = []"
proof -
  have h: "canvasMounted (cameraAt 0)" "webcamMounted (cameraAt 0)"
    "video (cameraAt 0) = Some \<lparr>readyState = 4, videoWidth = 640, videoHeight = 480\<rparr>"
    by (simp_all add: cameraAt_def)
  note t = drawDetections_clears [OF h, of threePredictions
      "drawDetections (cameraAt 0) [catPrediction] (blankCanvas 300 150)" "blankCanvas 300 150",
      unfolded video.simps]
  from t h show ?thesis by blast
qed

text \<open>
  C9. The claim: the label of every drawn prediction is its class name followed by its
  percentage. The code breaks it for a class other than book and laptop: the stroke and
  fill colours are chosen by \<open>if book ... else if laptop\<close>, but the label by the two-way
  \<open>class === "book" ? Book : Laptop\<close>, so a prediction of class cat with score 0.8 is
  labelled \<open>Laptop 80%\<close> (and, first on a fresh context, drawn in the default black).
\<close>

theorem cat_is_labelled_laptop:
  "painted (drawDetections (cameraAt 0) [catPrediction] (blankCanvas 300 150)) =
     [Stroke [(10, 30, 100, 50)] ''#000000'' 2, FillRect ''#000000'' 10 10 90 20,
      FillText ''white'' ''16px Arial'' ''Laptop 80%'' 15 25]"
  apply (simp add: drawDetections_def cameraAt_def setCanvasWidth_def setCanvasHeight_def
      clearRect_def blankCanvas_def drawPrediction_def ctx_defs classStyle_def Let_def label_cat
      dadd_80_10)
  apply (simp add: catPrediction_def dsub_30_20 dsub_30_5 dadd_10_5 dadd_80_10)
  done

subsection \<open>The readiness monitor\<close>

lemma request_arms:
  "list_all (\<lambda>tm. tid tm < nextHandle w) (timers w) \<Longrightarrow>
   armed (nextHandle w) (t + 30000) snap (checkBackend_request snap t w)"
  by (auto simp add: armed_def checkBackend_request_def setTimeout_def setters Let_def list_all_iff)



lemma clear_other_keeps:
  "armed h t snap w \<Longrightarrow> h' \<noteq> h \<Longrightarrow> armed h t snap (clearTimeout h' w)"
  by (auto simp add: armed_def clearTimeout_def)









text \<open>
  While a closure's own \<open>loadingTimeout\<close> is not the handle it is about to get, a
  health response that reports the model as loaded leaves the watchdog of the same call
  pending.
\<close>

lemma loaded_keeps_watchdog:
  assumes wf: "list_all (\<lambda>tm. tid tm < nextHandle w) (timers w)"
    and old: "loadingTimeout snap \<noteq> Some (nextHandle w)"
  shows "armed (nextHandle w) (t + 30000) snap (checkBackend snap t t' (HealthOk True) w)"
proof -
  let ?w1 = "checkBackend_request snap t w"
  have a: "armed (nextHandle w) (t + 30000) snap ?w1" by (rule request_arms [OF wf])
  have c: "armed (nextHandle w) (t + 30000) snap (clearLoadingTimeout snap ?w1)"
  proof (cases "loadingTimeout snap")
    case None
    with a show ?thesis by (simp add: clearLoadingTimeout_def)
  next
    case (Some k)
    with old have "k \<noteq> nextHandle w" by simp
    from clear_other_keeps [OF a this] have "armed (nextHandle w) (t + 30000) snap (clearTimeout k ?w1)" .
    then have "armed (nextHandle w) (t + 30000) snap (setLoadingTimeout None (clearTimeout k ?w1))"
      by (simp add: armed_def setters)
    with a Some show ?thesis by (simp add: clearLoadingTimeout_def)
  qed
  then show ?thesis
    by (simp add: checkBackend_def checkBackend_response_def armed_def setters)
qed

text \<open>
  C4. The claim: a health response that reports the model as loaded cancels the
  watchdog armed by the same call and sets the state to ready. The state is set to
  ready, but the watchdog is not cancelled: \<open>if (loadingTimeout)\<close> reads the constant of
  the render that created \<open>checkBackend\<close>, not the handle just stored by
  \<open>setLoadingTimeout(timeout)\<close>. On a mount that constant is \<open>null\<close>: after the
  response the watchdog with handle 1 is still pending, due at 30000 ms.
\<close>

theorem loaded_response_leaves_watchdog:
  "backendStatus (ui (checkBackend initialState 0 120 (HealthOk True) initialPage)) = ''ready''
   \<and> timers (checkBackend initialState 0 120 (HealthOk True) initialPage)
       = [\<lparr>tid = 1, due = 30000, callback = ForceStart initialState\<rparr>]
   \<and> loadingTimeout (ui (checkBackend initialState 0 120 (HealthOk True) initialPage)) = Some 1"
  by (simp add: monitor_defs initialPage_def initialState_def setters)

end
